theory Spec2Isabelle
  imports Complex_Main
begin

section \<open>JavaScript values used by the voting page\<close>

text \<open>
  The page \<^verbatim>\<open>src/frontend/app/page.tsx\<close> is a React component. Its state, its event
  handlers and the guards of its buttons are embedded below. Strings are lists of
  code units below 256. A JavaScript number is \<open>NaN\<close>, an infinity (the flag says
  whether it is negative) or a finite double, kept as the rational it is. Negative
  zero is kept as zero: the page only tests a number with \<^verbatim>\<open>isNaN\<close> and converts it
  with \<^verbatim>\<open>BigInt\<close>, which treat the two alike.
\<close>

datatype jsnum = NaN | Infinity bool | Fin rat

fun isNaN :: "jsnum \<Rightarrow> bool" where
  "isNaN NaN = True"
| "isNaN (Infinity _) = False"
| "isNaN (Fin _) = False"

datatype jserror =
    RangeError
  | TypeError
  | SyntaxError
  | LibraryError
  | NetworkError string

text \<open>
  \<^verbatim>\<open>BigInt(v)\<close> on the value read from a property: \<open>None\<close> is \<^verbatim>\<open>undefined\<close> (a missing
  property), which throws a TypeError; a number that is not integral throws a
  RangeError.
\<close>

fun BigInt :: "jsnum option \<Rightarrow> jserror + int" where
  "BigInt None = Inl TypeError"
| "BigInt (Some NaN) = Inl RangeError"
| "BigInt (Some (Infinity _)) = Inl RangeError"
| "BigInt (Some (Fin q)) = (if of_int \<lfloor>q\<rfloor> = q then Inr \<lfloor>q\<rfloor> else Inl RangeError)"

datatype json =
    JNull
  | JBool bool
  | JNum rat
  | JStr string
  | JArr "json list"
  | JObj "(string \<times> json) list"

text \<open>Truthiness of a value that may be \<^verbatim>\<open>undefined\<close> (\<open>None\<close>).\<close>

fun truthy :: "json option \<Rightarrow> bool" where
  "truthy None = False"
| "truthy (Some JNull) = False"
| "truthy (Some (JBool b)) = b"
| "truthy (Some (JNum q)) = (q \<noteq> 0)"
| "truthy (Some (JStr s)) = (s \<noteq> [])"
| "truthy (Some (JArr _)) = True"
| "truthy (Some (JObj _)) = True"

text \<open>
  Reading a property: \<^verbatim>\<open>v.name\<close> throws a TypeError on \<^verbatim>\<open>null\<close>, is the field's
  value on an object that has it, and \<^verbatim>\<open>undefined\<close> otherwise. \<^verbatim>\<open>v?.name\<close> is
  \<^verbatim>\<open>undefined\<close> on \<^verbatim>\<open>null\<close> and \<^verbatim>\<open>undefined\<close> as well.
\<close>

fun getProperty :: "json \<Rightarrow> string \<Rightarrow> jserror + json option" where
  "getProperty JNull name = Inl TypeError"
| "getProperty (JObj props) name = Inr (map_of props name)"
| "getProperty _ name = Inr None"

fun getPropertyOptional :: "json option \<Rightarrow> string \<Rightarrow> json option" where
  "getPropertyOptional (Some (JObj props)) name = map_of props name"
| "getPropertyOptional _ name = None"

subsection \<open>\<^verbatim>\<open>Number(text)\<close>\<close>

text \<open>
  The conversion of a string to a number follows the grammar of string numeric
  literals: surrounding white space is dropped, the empty string is 0, then a
  binary, octal or hexadecimal integer, or a signed decimal literal with an optional
  fraction and exponent, or a signed \<^verbatim>\<open>Infinity\<close>; anything else is \<open>NaN\<close>. The value
  of the literal is rounded to a double.
\<close>

definition isWhiteSpace :: "char \<Rightarrow> bool" where
  "isWhiteSpace c =
     (c \<in> set [CHR 0x09, CHR 0x0A, CHR 0x0B, CHR 0x0C, CHR 0x0D, CHR 0x20, CHR 0xA0])"

definition trim :: "string \<Rightarrow> string" where
  "trim s = rev (dropWhile isWhiteSpace (rev (dropWhile isWhiteSpace s)))"

definition digitValue :: "char \<Rightarrow> nat option" where
  "digitValue =
     map_of
       [(CHR ''0'', 0), (CHR ''1'', 1), (CHR ''2'', 2), (CHR ''3'', 3), (CHR ''4'', 4),
        (CHR ''5'', 5), (CHR ''6'', 6), (CHR ''7'', 7), (CHR ''8'', 8), (CHR ''9'', 9),
        (CHR ''a'', 10), (CHR ''b'', 11), (CHR ''c'', 12), (CHR ''d'', 13),
        (CHR ''e'', 14), (CHR ''f'', 15),
        (CHR ''A'', 10), (CHR ''B'', 11), (CHR ''C'', 12), (CHR ''D'', 13),
        (CHR ''E'', 14), (CHR ''F'', 15)]"

definition isDigit :: "char \<Rightarrow> bool" where
  "isDigit c = (case digitValue c of None \<Rightarrow> False | Some d \<Rightarrow> d < 10)"

text \<open>The value of a digit string in a base; \<open>None\<close> when a character is no digit of it.\<close>

fun digitsValue :: "nat \<Rightarrow> int \<Rightarrow> string \<Rightarrow> int option" where
  "digitsValue base acc [] = Some acc"
| "digitsValue base acc (c # cs) =
     (case digitValue c of
        None \<Rightarrow> None
      | Some d \<Rightarrow> if d < base then digitsValue base (acc * int base + int d) cs else None)"

definition digits :: "nat \<Rightarrow> string \<Rightarrow> int option" where
  "digits base s = (if s = [] then None else digitsValue base 0 s)"

definition nonDecimalIntegerLiteral :: "string \<Rightarrow> int option" where
  "nonDecimalIntegerLiteral s =
     (case s of
        c0 # c1 # rest \<Rightarrow>
          if c0 \<noteq> CHR ''0'' then None
          else if c1 = CHR ''x'' \<or> c1 = CHR ''X'' then digits 16 rest
          else if c1 = CHR ''o'' \<or> c1 = CHR ''O'' then digits 8 rest
          else if c1 = CHR ''b'' \<or> c1 = CHR ''B'' then digits 2 rest
          else None
      | _ \<Rightarrow> None)"

definition exponentPart :: "string \<Rightarrow> int option" where
  "exponentPart s =
     (case s of
        [] \<Rightarrow> Some 0
      | c # rest \<Rightarrow>
          if c = CHR ''e'' \<or> c = CHR ''E'' then
            (case rest of
               [] \<Rightarrow> None
             | sg # ds \<Rightarrow>
                 if sg = CHR ''+'' then digits 10 ds
                 else if sg = CHR ''-'' then map_option uminus (digits 10 ds)
                 else digits 10 rest)
          else None)"

definition scale10 :: "rat \<Rightarrow> int \<Rightarrow> rat" where
  "scale10 q e = (if e < 0 then q / 10 ^ nat (- e) else q * 10 ^ nat e)"

definition strUnsignedDecimalLiteral :: "string \<Rightarrow> rat option" where
  "strUnsignedDecimalLiteral s =
     (let ip = takeWhile isDigit s;
          r1 = dropWhile isDigit s;
          fp = (case r1 of [] \<Rightarrow> [] | c # r \<Rightarrow> if c = CHR ''.'' then takeWhile isDigit r else []);
          r2 = (case r1 of [] \<Rightarrow> [] | c # r \<Rightarrow> if c = CHR ''.'' then dropWhile isDigit r else r1)
      in if ip = [] \<and> fp = [] then None
         else
           (case exponentPart r2 of
              None \<Rightarrow> None
            | Some e \<Rightarrow>
                Some (scale10
                  (of_int (case digitsValue 10 0 ip of None \<Rightarrow> 0 | Some n \<Rightarrow> n)
                   + of_int (case digitsValue 10 0 fp of None \<Rightarrow> 0 | Some n \<Rightarrow> n)
                     / 10 ^ length fp) e)))"

text \<open>
  The Number value for a mathematical value: the nearest double, a tie going to the
  even significand. A double has a significand of 53 bits; below \<open>2 ^ - 1022\<close> the
  doubles are the multiples of \<open>2 ^ - 1074\<close>; a value that rounds to \<open>2 ^ 1024\<close> or
  beyond is an infinity. (The standard also lets an engine cut a decimal literal
  after its 20th significant digit; the engines round the literal itself, as here.)
\<close>

fun bitLength :: "int \<Rightarrow> nat" where
  "bitLength n = (if n \<le> 0 then 0 else Suc (bitLength (n div 2)))"

declare bitLength.simps [simp del]

definition pow2 :: "int \<Rightarrow> rat" where
  "pow2 k = (if 0 \<le> k then 2 ^ nat k else 1 / 2 ^ nat (- k))"

text \<open>For a positive \<open>q\<close>, the \<open>k\<close> with \<open>2 ^ k \<le> q < 2 ^ (k + 1)\<close>.\<close>

definition floorLog2 :: "rat \<Rightarrow> int" where
  "floorLog2 q =
     (let g = int (bitLength (fst (quotient_of q))) - int (bitLength (snd (quotient_of q)))
      in if pow2 g \<le> q then g else g - 1)"

definition roundHalfEven :: "rat \<Rightarrow> int" where
  "roundHalfEven x =
     (let f = \<lfloor>x\<rfloor>; r = x - of_int f
      in if r < 1 / 2 then f
         else if 1 / 2 < r then f + 1
         else if even f then f else f + 1)"

text \<open>
  With \<open>e\<close> the exponent of the value (at least \<open>- 1022\<close>), the doubles near it are the
  multiples of \<open>2 ^ (e - 52)\<close>, and the value is rounded to a multiple \<open>n\<close> of it. The
  result is \<open>2 ^ 1024\<close> or more exactly when the exponent is 1024 or more, or is 1023
  and the significand rounds up to \<open>2 ^ 53\<close>.
\<close>

definition numberValue :: "rat \<Rightarrow> jsnum" where
  "numberValue q =
     (if q = 0 then Fin 0
      else
        (let a = \<bar>q\<bar>; l = floorLog2 a
         in if 1024 \<le> l then Infinity (q < 0)
            else
              (let e = max l (- 1022);
                   u = pow2 (e - 52);
                   n = roundHalfEven (a / u)
               in if e = 1023 \<and> n = 2 ^ 53 then Infinity (q < 0)
                  else Fin (if q < 0 then - (of_int n * u) else of_int n * u))))"

definition strDecimalLiteral :: "string \<Rightarrow> jsnum" where
  "strDecimalLiteral s =
     (let neg = (case s of [] \<Rightarrow> False | c # _ \<Rightarrow> c = CHR ''-'');
          u = (case s of [] \<Rightarrow> [] | c # r \<Rightarrow> if c = CHR ''+'' \<or> c = CHR ''-'' then r else s)
      in if u = ''Infinity'' then Infinity neg
         else
           (case strUnsignedDecimalLiteral u of
              None \<Rightarrow> NaN
            | Some q \<Rightarrow> numberValue (if neg then - q else q)))"

definition Number_js :: "string \<Rightarrow> jsnum" where
  "Number_js text =
     (let t = trim text
      in if t = [] then Fin 0
         else
           (case nonDecimalIntegerLiteral t of
              Some n \<Rightarrow> numberValue (of_int n)
            | None \<Rightarrow> strDecimalLiteral t))"

section \<open>The state of the component\<close>

datatype TfheCompactPublicKey = PublicKey "nat list"

record state =
  verifiedFrontend :: bool
  verifiedBackend :: bool
  pcd :: "json option"
  publicKey :: "TfheCompactPublicKey option"
  inputValues :: "string \<rightharpoonup> jsnum"

text \<open>The \<^verbatim>\<open>useState\<close> initial values (lines 26 to 30).\<close>

definition initialState :: state where
  "initialState =
     \<lparr> verifiedFrontend = False,
       verifiedBackend = False,
       pcd = None,
       publicKey = None,
       inputValues = [''project1'' \<mapsto> Fin 0, ''project2'' \<mapsto> Fin 0, ''project3'' \<mapsto> Fin 0] \<rparr>"

subsection \<open>\<^verbatim>\<open>handleInputChange\<close> and the Reset button\<close>

text \<open>
  \<^verbatim>\<open>handleInputChange(e, project)\<close>: \<open>text\<close> is \<^verbatim>\<open>e.target.value\<close>. The spread copies the
  object and the computed key sets one property.
\<close>

definition handleInputChange :: "state \<Rightarrow> string \<Rightarrow> string \<Rightarrow> state" where
  "handleInputChange s text project =
     (let v = Number_js text
      in if \<not> isNaN v then s\<lparr>inputValues := (inputValues s)(project \<mapsto> v)\<rparr> else s)"

text \<open>The Reset button: \<^verbatim>\<open>onClick={() => setVerifiedFrontend(false)}\<close>.\<close>

definition resetOnClick :: "state \<Rightarrow> state" where
  "resetOnClick s = s\<lparr>verifiedFrontend := False\<rparr>"

section \<open>Collaborators of the page\<close>

text \<open>
  The libraries the page imports and the network are parameters of the model. A call
  that can throw, or whose promise can reject, returns an option (\<open>None\<close> is the
  failure); \<^verbatim>\<open>fetch\<close> returns the text of the error it rejects with, or the response.
\<close>

text \<open>
  A ciphertext object is kept as the bytes its \<^verbatim>\<open>serialize()\<close> returns.
\<close>

datatype ciphertext = Ciphertext (serialize: "nat list")

record fieldsToReveal_args =
  revealAttendeeEmail :: bool
  revealEventId :: bool
  revealProductId :: bool

text \<open>
  Modelled from the spec: the configuration constant \<^verbatim>\<open>ETHBERLIN_ZUAUTH_CONFIG\<close> of
  \<^verbatim>\<open>utils/zupassConstants\<close> is missing; the spec gives an election's eligibility set as
  event id, product id and trusted issuer public key.
\<close>

record zuauth_config_item =
  cfg_eventId :: string
  cfg_productId :: string
  cfg_publicKey :: "string list"

record popup_args =
  arg_fieldsToReveal :: fieldsToReveal_args
  arg_watermark :: string
  arg_config :: "zuauth_config_item list"

text \<open>
  The result of \<^verbatim>\<open>zuAuthPopup\<close>: of type \<^verbatim>\<open>"pcd"\<close>, with \<^verbatim>\<open>pcdStr\<close> kept as the value
  \<^verbatim>\<open>JSON.parse\<close> gives for it (\<open>None\<close> when it throws a SyntaxError), or of another type.
\<close>

datatype zuauth_result = ResultPcd "json option" | ResultOther string

text \<open>
  Modelled from the spec: the claim of a deserialized ticket proof. The page reads
  only \<^verbatim>\<open>claim.signer\<close>; the spec lists the event id, the product id and the watermark
  among what a credential carries.
\<close>

record ticket_claim =
  signer :: "string list"
  eventId :: "string option"
  productId :: "string option"
  watermark :: string

record zkpcd =
  claim :: ticket_claim
  zkproof :: "nat list"

record request =
  url :: string
  http_method :: string
  headers :: "(string \<times> string) list"
  body :: json

text \<open>Of a response the page uses \<^verbatim>\<open>json()\<close> only; \<open>None\<close> when that rejects.\<close>

record response =
  resp_json :: "json option"

text \<open>
  \<open>initializeTfhe\<close> says whether the initialisation resolves. \<open>loadPublicKey\<close>
  rejects (\<open>None\<close>) or resolves with a key or \<^verbatim>\<open>null\<close>; \<open>encrypt\<close>, \<open>deserialize\<close> and
  \<open>verify\<close> throw or reject (\<open>None\<close>) or return; \<open>zuAuthPopup\<close> rejects or resolves
  with a result.
\<close>

record env =
  initializeTfhe :: bool
  loadPublicKey :: "string \<Rightarrow> TfheCompactPublicKey option option"
  encrypt :: "int \<Rightarrow> TfheCompactPublicKey \<Rightarrow> ciphertext option"
  zuAuthPopup :: "popup_args \<Rightarrow> zuauth_result option"
  ETHBERLIN_ZUAUTH_CONFIG :: "zuauth_config_item list"
  deserialize :: "json \<Rightarrow> zkpcd option"
  verify :: "zkpcd \<Rightarrow> bool option"
  isETHBerlinPublicKey :: "string list \<Rightarrow> bool"
  fetch :: "request \<Rightarrow> string + response"

text \<open>
  What a handler does besides changing the state, in order: the popup it opens, the
  encryptions it asks for, the requests it sends and the notifications it shows.
  Writes to the console are not recorded.
\<close>

datatype effect =
    Popup popup_args
  | Encrypt int TfheCompactPublicKey
  | Fetch request
  | NotifyError string
  | NotifySuccess string "json option"

text \<open>
  A run of a handler, from its call to its end: the state after it, its effects, and
  the error it threw or rejected with (\<open>None\<close> when it completed). A handler that
  awaits (\<^verbatim>\<open>getProof\<close>, \<^verbatim>\<open>verifyProofFrontend\<close>, \<^verbatim>\<open>sendPCDToServer\<close>, the effect run on
  mount) reads the state of the render it was called in, and what it sets is set when
  it resumes; other events can be handled in between. A run is the handler with
  nothing in between.
\<close>

type_synonym run = "state \<times> effect list \<times> jserror option"

definition BASE_URL :: string where
  "BASE_URL = ''http://localhost:8000''"

definition PUBLIC_KEY_PATH :: string where
  "PUBLIC_KEY_PATH = BASE_URL @ ''/public-key''"

definition VOTE_PATH :: string where
  "VOTE_PATH = BASE_URL @ ''/vote''"

definition fieldsToReveal :: fieldsToReveal_args where
  "fieldsToReveal =
     \<lparr> revealAttendeeEmail = True, revealEventId = True, revealProductId = True \<rparr>"

text \<open>
  \<^verbatim>\<open>JSON.stringify\<close> of an object literal: a property whose value is \<^verbatim>\<open>undefined\<close> is
  left out. A request body is kept as the JSON value its text denotes.
\<close>

definition stringifyObject :: "(string \<times> json option) list \<Rightarrow> json" where
  "stringifyObject props =
     JObj (List.map_filter (\<lambda>(k, v). map_option (Pair k) v) props)"

definition jsonHeaders :: "(string \<times> string) list" where
  "jsonHeaders = [(''Content-Type'', ''application/json'')]"

section \<open>The handlers\<close>

text \<open>The effect run on mount (lines 42 to 51).\<close>

definition loadKeyEffect :: "env \<Rightarrow> state \<Rightarrow> run" where
  "loadKeyEffect e s =
     (if \<not> initializeTfhe e then (s, [], Some LibraryError)
      else
        (case loadPublicKey e PUBLIC_KEY_PATH of
           None \<Rightarrow> (s, [], Some LibraryError)
         | Some k \<Rightarrow> (s\<lparr>publicKey := k\<rparr>, [], None)))"

text \<open>
  \<^verbatim>\<open>votes.map(vote => encrypt(vote, publicKey))\<close>: the votes are encrypted in order;
  the first call that throws ends the map.
\<close>

fun encryptAll ::
  "env \<Rightarrow> TfheCompactPublicKey \<Rightarrow> int list \<Rightarrow> effect list \<times> ciphertext list option" where
  "encryptAll e k [] = ([], Some [])"
| "encryptAll e k (v # vs) =
     (case encrypt e v k of
        None \<Rightarrow> ([Encrypt v k], None)
      | Some c \<Rightarrow>
          (case encryptAll e k vs of
             (es, r) \<Rightarrow> (Encrypt v k # es, map_option (Cons c) r)))"

text \<open>\<^verbatim>\<open>Array.from(vote.serialize())\<close>: the bytes as an array of numbers.\<close>

definition serializeVote :: "ciphertext \<Rightarrow> json" where
  "serializeVote vote = JArr (map (\<lambda>b. JNum (of_nat b)) (serialize vote))"

definition voteBody :: "ciphertext list \<Rightarrow> json option \<Rightarrow> json" where
  "voteBody votesEncrypted p =
     (let votesSerialized = map serializeVote votesEncrypted
      in stringifyObject [(''votes'', Some (JArr votesSerialized)), (''pcd'', p)])"

text \<open>The request of \<^verbatim>\<open>fetch(VOTE_PATH, ...)\<close> (lines 63 to 69).\<close>

definition voteRequest :: "ciphertext list \<Rightarrow> json option \<Rightarrow> request" where
  "voteRequest votesEncrypted p =
     \<lparr> url = VOTE_PATH, http_method = ''POST'', headers = jsonHeaders,
       body = voteBody votesEncrypted p \<rparr>"

definition handleClick :: "env \<Rightarrow> state \<Rightarrow> int list \<Rightarrow> run" where
  "handleClick e s votes =
     (case publicKey s of
        None \<Rightarrow> (s, [], None)
      | Some k \<Rightarrow>
          (case encryptAll e k votes of
             (es, None) \<Rightarrow> (s, es, Some LibraryError)
           | (es, Some votesEncrypted) \<Rightarrow>
               (let req = voteRequest votesEncrypted (pcd s)
                in (case fetch e req of
                      Inl msg \<Rightarrow> (s, es @ [Fetch req], Some (NetworkError msg))
                    | Inr _ \<Rightarrow> (s, es @ [Fetch req], None)))))"

definition getProof :: "env \<Rightarrow> state \<Rightarrow> run" where
  "getProof e s =
     (let args = \<lparr> arg_fieldsToReveal = fieldsToReveal, arg_watermark = ''123'',
                   arg_config = ETHBERLIN_ZUAUTH_CONFIG e \<rparr>
      in (case zuAuthPopup e args of
            None \<Rightarrow> (s, [Popup args], Some LibraryError)
          | Some (ResultPcd parsed) \<Rightarrow>
              (case parsed of
                 None \<Rightarrow> (s, [Popup args], Some SyntaxError)
               | Some j \<Rightarrow>
                   (case getProperty j ''pcd'' of
                      Inl err \<Rightarrow> (s, [Popup args], Some err)
                    | Inr v \<Rightarrow> (s\<lparr>pcd := v\<rparr>, [Popup args], None)))
          | Some (ResultOther _) \<Rightarrow>
              (s, [Popup args, NotifyError ''Failed to parse PCD''], None)))"

text \<open>
  The part of \<^verbatim>\<open>getProof\<close> after \<^verbatim>\<open>await zuAuthPopup(...)\<close> (lines 76 to 81), on the
  state at the time the popup resolves. The button that starts \<^verbatim>\<open>getProof\<close> is enabled
  as long as no proof is stored, so a second popup can be opened while the first is
  pending, and it can resolve after other handlers have run.
\<close>

definition getProofResolved :: "zuauth_result \<Rightarrow> state \<Rightarrow> run" where
  "getProofResolved result s =
     (case result of
        ResultPcd parsed \<Rightarrow>
          (case parsed of
             None \<Rightarrow> (s, [], Some SyntaxError)
           | Some j \<Rightarrow>
               (case getProperty j ''pcd'' of
                  Inl err \<Rightarrow> (s, [], Some err)
                | Inr v \<Rightarrow> (s\<lparr>pcd := v\<rparr>, [], None)))
      | ResultOther _ \<Rightarrow> (s, [NotifyError ''Failed to parse PCD''], None))"

definition verifyProofFrontend :: "env \<Rightarrow> state \<Rightarrow> run" where
  "verifyProofFrontend e s =
     (case pcd s of
        None \<Rightarrow> (s, [NotifyError ''No PCD found!''], None)
      | Some p \<Rightarrow>
          if \<not> truthy (Some p) then (s, [NotifyError ''No PCD found!''], None)
          else
            (case deserialize e p of
               None \<Rightarrow> (s, [], Some LibraryError)
             | Some deserializedPCD \<Rightarrow>
                 (case verify e deserializedPCD of
                    None \<Rightarrow> (s, [], Some LibraryError)
                  | Some ok \<Rightarrow>
                      if \<not> ok then
                        (s, [NotifyError ''[ERROR Frontend] ZK ticket PCD is not valid''], None)
                      else if \<not> isETHBerlinPublicKey e (signer (claim deserializedPCD)) then
                        (s, [NotifyError ''[ERROR Frontend] PCD is not signed by ETHBerlin''], None)
                      else
                        (s\<lparr>verifiedFrontend := True\<rparr>,
                         [NotifySuccess ''Frontend Verified!''
                            (Some (JStr ''The proof has been verified by the frontend.''))],
                         None))))"

text \<open>The request of \<^verbatim>\<open>fetch("/api/verify", ...)\<close> (lines 118 to 126).\<close>

definition verifyRequest :: "json option \<Rightarrow> request" where
  "verifyRequest p =
     \<lparr> url = ''/api/verify'', http_method = ''POST'', headers = jsonHeaders,
       body = stringifyObject [(''pcd'', p)] \<rparr>"

definition sendPCDToServer :: "env \<Rightarrow> state \<Rightarrow> run" where
  "sendPCDToServer e s =
     (let req = verifyRequest (pcd s)
      in (case fetch e req of
            Inl msg \<Rightarrow> (s, [Fetch req, NotifyError (''Error: '' @ msg)], None)
          | Inr resp \<Rightarrow>
              (case resp_json resp of
                 None \<Rightarrow> (s, [Fetch req], Some SyntaxError)
               | Some data \<Rightarrow>
                   (s\<lparr>verifiedBackend := True\<rparr>,
                    [Fetch req,
                     NotifySuccess ''Backend Verified!'' (getPropertyOptional (Some data) ''message'')],
                    None))))"

subsection \<open>The rendered controls\<close>

text \<open>The three inputs (line 166) and the \<^verbatim>\<open>disabled\<close> attributes of the buttons.\<close>

definition projects :: "string list" where
  "projects = [''project1'', ''project2'', ''project3'']"

definition proveDisabled :: "state \<Rightarrow> bool" where
  "proveDisabled s = truthy (pcd s)"

definition verifyFrontendDisabled :: "state \<Rightarrow> bool" where
  "verifyFrontendDisabled s = (\<not> truthy (pcd s) \<or> verifiedFrontend s)"

definition voteDisabled :: "state \<Rightarrow> bool" where
  "voteDisabled s = (\<not> verifiedFrontend s \<or> verifiedBackend s)"

text \<open>
  The Vote button's \<^verbatim>\<open>onClick\<close> (lines 181 to 187): the three conversions run first,
  in order, and a conversion that throws ends the handler before \<^verbatim>\<open>handleClick\<close> is
  called.
\<close>

definition voteOnClick :: "env \<Rightarrow> state \<Rightarrow> run" where
  "voteOnClick e s =
     (case BigInt (inputValues s ''project1'') of
        Inl err \<Rightarrow> (s, [], Some err)
      | Inr v1 \<Rightarrow>
          (case BigInt (inputValues s ''project2'') of
             Inl err \<Rightarrow> (s, [], Some err)
           | Inr v2 \<Rightarrow>
               (case BigInt (inputValues s ''project3'') of
                  Inl err \<Rightarrow> (s, [], Some err)
                | Inr v3 \<Rightarrow> handleClick e s [v1, v2, v3])))"

subsection \<open>Events\<close>

text \<open>
  One event of the page and the run of the handler it calls; \<open>None\<close> when the control
  is disabled or not rendered. No control of the page calls \<^verbatim>\<open>sendPCDToServer\<close>.
\<close>

datatype event =
    Mount
  | ClickProve
  | ClickVerifyFrontend
  | InputChange string string
  | ClickVote
  | ClickReset
  | CallSendPCDToServer

fun step :: "env \<Rightarrow> state \<Rightarrow> event \<Rightarrow> run option" where
  "step e s Mount = Some (loadKeyEffect e s)"
| "step e s ClickProve = (if proveDisabled s then None else Some (getProof e s))"
| "step e s ClickVerifyFrontend =
     (if verifyFrontendDisabled s then None else Some (verifyProofFrontend e s))"
| "step e s (InputChange text project) =
     (if project \<in> set projects then Some (handleInputChange s text project, [], None)
      else None)"
| "step e s ClickVote = (if voteDisabled s then None else Some (voteOnClick e s))"
| "step e s ClickReset = Some (resetOnClick s, [], None)"
| "step e s CallSendPCDToServer = Some (sendPCDToServer e s)"

text \<open>
  A proof is accepted by the client-side check when \<^verbatim>\<open>verifyProofFrontend\<close>, run on
  it, sets the flag.
\<close>

definition acceptedByFrontend :: "env \<Rightarrow> json option \<Rightarrow> bool" where
  "acceptedByFrontend e p =
     verifiedFrontend (fst (verifyProofFrontend e (initialState\<lparr>pcd := p\<rparr>)))"

section \<open>Example inputs\<close>

text \<open>
  A session used to run the handlers on concrete values: the key server answers, the
  popup returns a ticket proof for another event and product than the configured
  ones, made for another watermark than the one requested; the proof library and
  the issuer check accept it; the encryption is a stand-in; both endpoints answer
  with a refusal.
\<close>

definition exampleKey :: TfheCompactPublicKey where
  "exampleKey = PublicKey [1, 2, 3]"

definition exampleTicket :: zkpcd where
  "exampleTicket =
     \<lparr> claim = \<lparr> signer = [''pk0'', ''pk1''], eventId = Some ''event-2'',
                 productId = Some ''product-9'', watermark = ''999'' \<rparr>,
       zkproof = [0] \<rparr>"

definition exampleEnv :: env where
  "exampleEnv =
     \<lparr> initializeTfhe = True,
       loadPublicKey = (\<lambda>_. Some (Some exampleKey)),
       encrypt = (\<lambda>v k. Some (Ciphertext [nat (v mod 256), 7])),
       zuAuthPopup =
         (\<lambda>_. Some (ResultPcd (Some (JObj [(''type'', JStr ''zk-eddsa-event-ticket-pcd''),
                                            (''pcd'', JStr ''ticket'')])))),
       ETHBERLIN_ZUAUTH_CONFIG =
         [\<lparr> cfg_eventId = ''event-1'', cfg_productId = ''product-1'',
            cfg_publicKey = [''pk0'', ''pk1''] \<rparr>],
       deserialize = (\<lambda>j. if j = JStr ''ticket'' then Some exampleTicket else None),
       verify = (\<lambda>_. Some True),
       isETHBerlinPublicKey = (\<lambda>k. k = [''pk0'', ''pk1'']),
       fetch =
         (\<lambda>_. Inr \<lparr> resp_json = Some (JObj [(''verified'', JBool False),
                                              (''message'', JStr ''invalid proof'')]) \<rparr>) \<rparr>"




text \<open>A state with three different votes, and a session whose encryption throws on one value.\<close>

definition countedState :: state where
  "countedState =
     \<lparr> verifiedFrontend = True,
       verifiedBackend = False,
       pcd = Some (JStr ''ticket''),
       publicKey = Some exampleKey,
       inputValues = [''project1'' \<mapsto> Fin 1, ''project2'' \<mapsto> Fin 2, ''project3'' \<mapsto> Fin 3] \<rparr>"

definition encryptFailsAt :: "int \<Rightarrow> env" where
  "encryptFailsAt n =
     exampleEnv\<lparr>encrypt := (\<lambda>v k. if v = n then None else Some (Ciphertext [nat (v mod 256), 7]))\<rparr>"

text \<open>The state after the frontend check of the ticket has passed.\<close>

definition readyState :: state where
  "readyState =
     \<lparr> verifiedFrontend = True,
       verifiedBackend = False,
       pcd = Some (JStr ''ticket''),
       publicKey = Some exampleKey,
       inputValues = [''project1'' \<mapsto> Fin 0, ''project2'' \<mapsto> Fin 0, ''project3'' \<mapsto> Fin 0] \<rparr>"

section \<open>Evaluations used below\<close>

lemma Number_js_7: "Number_js ''7'' = Fin 7"
  by code_simp

lemma Number_js_abc: "Number_js ''abc'' = NaN"
  by code_simp

lemma Number_js_one_and_a_half: "Number_js ''1.5'' = Fin (3 / 2)"
  by code_simp

lemma Number_js_minus_5: "Number_js ''-5'' = Fin (- 5)"
  by code_simp

lemma Number_js_Infinity: "Number_js ''Infinity'' = Infinity False"
  by code_simp

lemma floor_three_halves: "\<lfloor>3 / 2 :: rat\<rfloor> = 1"
  by (rule floor_unique) simp_all

lemma three_halves_not_integral: "of_int \<lfloor>3 / 2 :: rat\<rfloor> \<noteq> (3 / 2 :: rat)"
  by (simp add: floor_three_halves)

lemma Number_js_rounds: "Number_js ''1.0000000000000000001'' = Fin 1"
  by code_simp

lemma Number_js_tie_to_even: "Number_js ''9007199254740993'' = Fin 9007199254740992"
  by code_simp


lemma readyState_vote:
  "step exampleEnv readyState ClickVote
     = Some (readyState,
         [Encrypt 0 exampleKey, Encrypt 0 exampleKey, Encrypt 0 exampleKey,
          Fetch (voteRequest [Ciphertext [0, 7], Ciphertext [0, 7], Ciphertext [0, 7]]
                   (Some (JStr ''ticket'')))],
         None)"
  by (simp add: readyState_def voteDisabled_def voteOnClick_def handleClick_def exampleEnv_def
      Let_def)

lemma countedState_BigInt:
  "BigInt (inputValues countedState ''project1'') = Inr 1
   \<and> BigInt (inputValues countedState ''project2'') = Inr 2
   \<and> BigInt (inputValues countedState ''project3'') = Inr 3
   \<and> publicKey countedState = Some exampleKey"
  by (simp add: countedState_def)

section \<open>What each handler changes\<close>

lemma getProof_resolved:
  "getProof e s =
     (case zuAuthPopup e \<lparr> arg_fieldsToReveal = fieldsToReveal, arg_watermark = ''123'',
                             arg_config = ETHBERLIN_ZUAUTH_CONFIG e \<rparr> of
        None \<Rightarrow>
          (s, [Popup \<lparr> arg_fieldsToReveal = fieldsToReveal, arg_watermark = ''123'',
                        arg_config = ETHBERLIN_ZUAUTH_CONFIG e \<rparr>], Some LibraryError)
      | Some result \<Rightarrow>
          (case getProofResolved result s of
             (s', es, r) \<Rightarrow>
               (s', Popup \<lparr> arg_fieldsToReveal = fieldsToReveal, arg_watermark = ''123'',
                             arg_config = ETHBERLIN_ZUAUTH_CONFIG e \<rparr> # es, r)))"
  by (simp add: getProof_def getProofResolved_def Let_def
      split: option.splits zuauth_result.splits sum.splits)

lemma voteOnClick_converted:
  assumes "BigInt (inputValues s ''project1'') = Inr v1"
    and "BigInt (inputValues s ''project2'') = Inr v2"
    and "BigInt (inputValues s ''project3'') = Inr v3"
  shows "voteOnClick e s = handleClick e s [v1, v2, v3]"
  using assms by (simp add: voteOnClick_def)

lemma encryptAll_Some:
  "snd (encryptAll e k vs) = Some cs \<Longrightarrow>
     fst (encryptAll e k vs) = map (\<lambda>v. Encrypt v k) vs
     \<and> map (\<lambda>v. encrypt e v k) vs = map Some cs"
  by (induction vs arbitrary: cs) (auto split: option.splits prod.splits)

lemma encryptAll_no_Fetch: "Fetch req \<notin> set (fst (encryptAll e k vs))"
  by (induction vs) (auto split: option.splits prod.splits)

lemma encryptAll_first: "\<exists>rest. fst (encryptAll e k (v # vs)) = Encrypt v k # rest"
  by (auto split: option.splits prod.splits)


lemma handleClick_Fetch:
  assumes "Fetch req \<in> set (fst (snd (handleClick e s votes)))"
  shows "\<exists>k cs. publicKey s = Some k \<and> map (\<lambda>v. encrypt e v k) votes = map Some cs
            \<and> req = voteRequest cs (pcd s)"
proof -
  from assms obtain k where k: "publicKey s = Some k"
    by (auto simp: handleClick_def split: option.splits)
  from assms k obtain cs where cs: "snd (encryptAll e k votes) = Some cs"
    using encryptAll_no_Fetch [of req e k votes]
    by (cases "encryptAll e k votes")
       (auto simp: handleClick_def Let_def split: option.splits sum.splits)
  from assms k cs have "req = voteRequest cs (pcd s)"
    using encryptAll_no_Fetch [of req e k votes]
    by (cases "encryptAll e k votes")
       (auto simp: handleClick_def Let_def split: option.splits sum.splits)
  with k encryptAll_Some [OF cs] show ?thesis
    by blast
qed

lemma acceptedByFrontend_iff:
  "acceptedByFrontend e p =
     (\<exists>j d. p = Some j \<and> truthy (Some j) \<and> deserialize e j = Some d
            \<and> verify e d = Some True \<and> isETHBerlinPublicKey e (signer (claim d)))"
  by (auto simp: acceptedByFrontend_def verifyProofFrontend_def initialState_def
      split: option.splits)

lemma verifyProofFrontend_flag:
  "verifiedFrontend (fst (verifyProofFrontend e s))
     = (verifiedFrontend s \<or> acceptedByFrontend e (pcd s))"
  by (auto simp: acceptedByFrontend_iff verifyProofFrontend_def split: option.splits)

lemma getProof_watermark:
  "\<exists>rest. fst (snd (getProof e s))
     = Popup \<lparr> arg_fieldsToReveal = fieldsToReveal, arg_watermark = ''123'',
               arg_config = ETHBERLIN_ZUAUTH_CONFIG e \<rparr> # rest"
  by (auto simp: getProof_def Let_def split: option.splits zuauth_result.splits sum.splits)

section \<open>The Reset button and the inputs\<close>

text \<open>
  Claim C8. Pressing Reset sets \<open>verifiedFrontend\<close> to false and changes nothing
  else: the stored pcd, the \<open>verifiedBackend\<close> flag, the loaded public key and the
  input values are as before, so a backend-verified status survives a Reset. The
  button is never disabled and the click has no other effect.
\<close>

theorem reset_clears_only_verifiedFrontend:
  "verifiedFrontend (resetOnClick s) = False
   \<and> pcd (resetOnClick s) = pcd s
   \<and> verifiedBackend (resetOnClick s) = verifiedBackend s
   \<and> publicKey (resetOnClick s) = publicKey s
   \<and> inputValues (resetOnClick s) = inputValues s
   \<and> step e s ClickReset = Some (resetOnClick s, [], None)"
  by (simp add: resetOnClick_def)

text \<open>
  Claim C9. For every input event handled by \<open>handleInputChange\<close>: when the text
  converts to \<open>NaN\<close>, the input values are left as they are; when it converts to a
  number, the targeted project holds that number afterwards and the value of every
  other project is unchanged.
\<close>

theorem handleInputChange_updates_only_target:
  "(isNaN (Number_js text) \<longrightarrow>
      inputValues (handleInputChange s text project) = inputValues s)
   \<and> (\<not> isNaN (Number_js text) \<longrightarrow>
        inputValues (handleInputChange s text project) project = Some (Number_js text)
        \<and> (\<forall>p. p \<noteq> project \<longrightarrow>
              inputValues (handleInputChange s text project) p = inputValues s p))"
  by (simp add: handleInputChange_def Let_def)

theorem handleInputChange_updates_only_target_witness:
  "isNaN (Number_js ''abc'')
   \<and> inputValues (handleInputChange initialState ''abc'' ''project1'') = inputValues initialState
   \<and> \<not> isNaN (Number_js ''7'')
   \<and> inputValues (handleInputChange initialState ''7'' ''project2'') ''project2'' = Some (Fin 7)
   \<and> inputValues (handleInputChange initialState ''7'' ''project2'') ''project1'' = Some (Fin 0)
   \<and> inputValues (handleInputChange initialState ''7'' ''project2'') ''project3'' = Some (Fin 0)"
  using handleInputChange_updates_only_target [of "''abc''" initialState "''project1''"]
    handleInputChange_updates_only_target [of "''7''" initialState "''project2''"]
  by (simp add: Number_js_7 Number_js_abc initialState_def)

section \<open>Backend verification\<close>

lemma sendPCDToServer_ignores_verdict:
  "fetch e (verifyRequest (pcd s)) = Inr resp \<Longrightarrow> resp_json resp = Some data \<Longrightarrow>
     verifiedBackend (fst (sendPCDToServer e s))"
  by (simp add: sendPCDToServer_def Let_def)

text \<open>
  Claim C1 says that \<open>sendPCDToServer\<close> sets \<open>verifiedBackend\<close> only when the
  server's response reports \<open>verified = true\<close>. The handler never reads that field:
  here the endpoint answers \<open>verified: false\<close>, and the run sets the flag and shows
  the success notification with the refusal's message.
\<close>

theorem sendPCDToServer_sets_flag_on_refusal:
  "fetch exampleEnv (verifyRequest (pcd readyState))
     = Inr \<lparr> resp_json = Some (JObj [(''verified'', JBool False),
                                      (''message'', JStr ''invalid proof'')]) \<rparr>
   \<and> sendPCDToServer exampleEnv readyState
     = (readyState\<lparr>verifiedBackend := True\<rparr>,
        [Fetch (verifyRequest (pcd readyState)),
         NotifySuccess ''Backend Verified!'' (Some (JStr ''invalid proof''))],
        None)"
  by (simp add: sendPCDToServer_def exampleEnv_def Let_def)

section \<open>When a vote can be cast\<close>




section \<open>What the frontend check looks at\<close>

text \<open>
  Claim C3 as stated fails: the frontend check accepts a proof whose event and
  product are not in the configuration and whose watermark differs from the one
  requested, which is the constant \<^verbatim>\<open>"123"\<close>.
\<close>

theorem frontend_accepts_other_event_and_watermark:
  "acceptedByFrontend exampleEnv (Some (JStr ''ticket''))
   \<and> deserialize exampleEnv (JStr ''ticket'') = Some exampleTicket
   \<and> (eventId (claim exampleTicket), productId (claim exampleTicket))
       \<notin> set (map (\<lambda>c. (Some (cfg_eventId c), Some (cfg_productId c)))
                 (ETHBERLIN_ZUAUTH_CONFIG exampleEnv))
   \<and> fst (snd (getProof exampleEnv initialState))
       = [Popup \<lparr> arg_fieldsToReveal = fieldsToReveal, arg_watermark = ''123'',
                  arg_config = ETHBERLIN_ZUAUTH_CONFIG exampleEnv \<rparr>]
   \<and> watermark (claim exampleTicket) \<noteq> ''123''"
  by (simp add: acceptedByFrontend_iff exampleEnv_def exampleTicket_def getProof_def Let_def)

text \<open>
  Claim C3, amended. A proof is accepted by the client-side check exactly when it is
  present and truthy, deserializes, passes the library's proof verification and is
  signed by the ETHBerlin key; \<open>verifyProofFrontend\<close> sets the flag exactly then (or
  leaves it set); and every proof request carries the constant watermark \<^verbatim>\<open>"123"\<close>.
  Neither the event id, the product id nor the watermark of the claim is compared.
\<close>

theorem frontend_check_is_validity_and_signer:
  "acceptedByFrontend e p =
     (\<exists>j d. p = Some j \<and> truthy (Some j) \<and> deserialize e j = Some d
            \<and> verify e d = Some True \<and> isETHBerlinPublicKey e (signer (claim d)))
   \<and> verifiedFrontend (fst (verifyProofFrontend e s))
       = (verifiedFrontend s \<or> acceptedByFrontend e (pcd s))
   \<and> (\<exists>rest. fst (snd (getProof e s))
         = Popup \<lparr> arg_fieldsToReveal = fieldsToReveal, arg_watermark = ''123'',
                   arg_config = ETHBERLIN_ZUAUTH_CONFIG e \<rparr> # rest)"
  using acceptedByFrontend_iff [of e p] verifyProofFrontend_flag [of e s]
    getProof_watermark [of e s]
  by blast

section \<open>Vote values\<close>

text \<open>
  Claim C4 as stated fails: the input \<^verbatim>\<open>-5\<close> is stored, and the Vote click passes
  it to the encryption and sends the ballot.
\<close>

theorem negative_vote_is_encrypted_and_sent:
  "inputValues (handleInputChange readyState ''-5'' ''project1'') ''project1'' = Some (Fin (- 5))
   \<and> step exampleEnv (handleInputChange readyState ''-5'' ''project1'') ClickVote
     = Some (handleInputChange readyState ''-5'' ''project1'',
         [Encrypt (- 5) exampleKey, Encrypt 0 exampleKey, Encrypt 0 exampleKey,
          Fetch (voteRequest [Ciphertext [251, 7], Ciphertext [0, 7], Ciphertext [0, 7]]
                   (Some (JStr ''ticket'')))],
         None)"
  by (simp add: handleInputChange_def Number_js_minus_5 readyState_def voteDisabled_def
      voteOnClick_def handleClick_def exampleEnv_def Let_def)

text \<open>
  Claim C4, amended. The only check before encrypting is the conversion to BigInt:
  when the stored value of some project does not convert, the Vote click throws
  before any encryption or request. There is no range check: when the three values
  convert and a public key is loaded, the converted values, whatever their sign or
  size, are passed to the encryption unchanged, in the order project1, project2,
  project3, each one once the one before it has returned, and none after one has
  thrown; the click then ends with that error. No other value is encrypted.
\<close>

theorem vote_checks_integrality_only:
  "((\<exists>p \<in> set projects. \<exists>err. BigInt (inputValues s p) = Inl err) \<longrightarrow>
      (\<exists>err. voteOnClick e s = (s, [], Some err)))
   \<and> (BigInt (inputValues s ''project1'') = Inr v1
        \<and> BigInt (inputValues s ''project2'') = Inr v2
        \<and> BigInt (inputValues s ''project3'') = Inr v3
        \<and> publicKey s = Some k \<longrightarrow>
        (encrypt e v1 k = None \<longrightarrow>
           voteOnClick e s = (s, [Encrypt v1 k], Some LibraryError))
        \<and> (encrypt e v1 k \<noteq> None \<and> encrypt e v2 k = None \<longrightarrow>
             voteOnClick e s = (s, [Encrypt v1 k, Encrypt v2 k], Some LibraryError))
        \<and> (encrypt e v1 k \<noteq> None \<and> encrypt e v2 k \<noteq> None \<and> encrypt e v3 k = None \<longrightarrow>
             voteOnClick e s
               = (s, [Encrypt v1 k, Encrypt v2 k, Encrypt v3 k], Some LibraryError))
        \<and> (encrypt e v1 k \<noteq> None \<and> encrypt e v2 k \<noteq> None \<and> encrypt e v3 k \<noteq> None \<longrightarrow>
             (\<exists>rest r. voteOnClick e s
                          = (s, [Encrypt v1 k, Encrypt v2 k, Encrypt v3 k] @ rest, r)
                        \<and> (\<forall>v k'. Encrypt v k' \<notin> set rest))))"
proof (intro conjI impI)
  assume "\<exists>p \<in> set projects. \<exists>err. BigInt (inputValues s p) = Inl err"
  then show "\<exists>err. voteOnClick e s = (s, [], Some err)"
    by (auto simp: projects_def voteOnClick_def split: sum.splits)
next
  assume a: "BigInt (inputValues s ''project1'') = Inr v1
        \<and> BigInt (inputValues s ''project2'') = Inr v2
        \<and> BigInt (inputValues s ''project3'') = Inr v3
        \<and> publicKey s = Some k"
  then have v: "voteOnClick e s = handleClick e s [v1, v2, v3]"
    by (simp add: voteOnClick_converted)
  {
    assume "encrypt e v1 k = None"
    with a v show "voteOnClick e s = (s, [Encrypt v1 k], Some LibraryError)"
      by (simp add: handleClick_def)
  next
    assume "encrypt e v1 k \<noteq> None \<and> encrypt e v2 k = None"
    with a v show "voteOnClick e s = (s, [Encrypt v1 k, Encrypt v2 k], Some LibraryError)"
      by (auto simp: handleClick_def)
  next
    assume "encrypt e v1 k \<noteq> None \<and> encrypt e v2 k \<noteq> None \<and> encrypt e v3 k = None"
    with a v show "voteOnClick e s
               = (s, [Encrypt v1 k, Encrypt v2 k, Encrypt v3 k], Some LibraryError)"
      by (auto simp: handleClick_def)
  next
    assume "encrypt e v1 k \<noteq> None \<and> encrypt e v2 k \<noteq> None \<and> encrypt e v3 k \<noteq> None"
    then obtain c1 c2 c3 where
      "encrypt e v1 k = Some c1" "encrypt e v2 k = Some c2" "encrypt e v3 k = Some c3"
      by auto
    with a v have "\<exists>r. voteOnClick e s
        = (s, [Encrypt v1 k, Encrypt v2 k, Encrypt v3 k] @ [Fetch (voteRequest [c1, c2, c3] (pcd s))], r)"
      by (simp add: handleClick_def Let_def split: sum.splits)
    then show "\<exists>rest r. voteOnClick e s
                          = (s, [Encrypt v1 k, Encrypt v2 k, Encrypt v3 k] @ rest, r)
                        \<and> (\<forall>v k'. Encrypt v k' \<notin> set rest)"
      by fastforce
  }
qed

theorem vote_checks_integrality_only_witness:
  "''project2'' \<in> set projects
   \<and> BigInt (inputValues (handleInputChange readyState ''Infinity'' ''project2'') ''project2'')
       = Inl RangeError
   \<and> voteOnClick exampleEnv (handleInputChange readyState ''Infinity'' ''project2'')
       = (handleInputChange readyState ''Infinity'' ''project2'', [], Some RangeError)
   \<and> BigInt (inputValues countedState ''project1'') = Inr 1
   \<and> BigInt (inputValues countedState ''project2'') = Inr 2
   \<and> BigInt (inputValues countedState ''project3'') = Inr 3
   \<and> publicKey countedState = Some exampleKey
   \<and> encrypt (encryptFailsAt 1) 1 exampleKey = None
   \<and> voteOnClick (encryptFailsAt 1) countedState
       = (countedState, [Encrypt 1 exampleKey], Some LibraryError)
   \<and> encrypt (encryptFailsAt 2) 1 exampleKey \<noteq> None
   \<and> encrypt (encryptFailsAt 2) 2 exampleKey = None
   \<and> voteOnClick (encryptFailsAt 2) countedState
       = (countedState, [Encrypt 1 exampleKey, Encrypt 2 exampleKey], Some LibraryError)
   \<and> encrypt (encryptFailsAt 3) 1 exampleKey \<noteq> None
   \<and> encrypt (encryptFailsAt 3) 2 exampleKey \<noteq> None
   \<and> encrypt (encryptFailsAt 3) 3 exampleKey = None
   \<and> voteOnClick (encryptFailsAt 3) countedState
       = (countedState, [Encrypt 1 exampleKey, Encrypt 2 exampleKey, Encrypt 3 exampleKey],
          Some LibraryError)
   \<and> encrypt exampleEnv 1 exampleKey \<noteq> None
   \<and> encrypt exampleEnv 2 exampleKey \<noteq> None
   \<and> encrypt exampleEnv 3 exampleKey \<noteq> None
   \<and> voteOnClick exampleEnv countedState
       = (countedState,
          [Encrypt 1 exampleKey, Encrypt 2 exampleKey, Encrypt 3 exampleKey]
          @ [Fetch (voteRequest [Ciphertext [1, 7], Ciphertext [2, 7], Ciphertext [3, 7]]
                      (Some (JStr ''ticket'')))],
          None)"
proof -
  have inf: "''project2'' \<in> set projects
      \<and> BigInt (inputValues (handleInputChange readyState ''Infinity'' ''project2'') ''project2'')
          = Inl RangeError"
    by (simp add: projects_def handleInputChange_def Number_js_Infinity)
  have enc: "encrypt (encryptFailsAt 1) 1 exampleKey = None
      \<and> encrypt (encryptFailsAt 2) 1 exampleKey \<noteq> None
      \<and> encrypt (encryptFailsAt 2) 2 exampleKey = None
      \<and> encrypt (encryptFailsAt 3) 1 exampleKey \<noteq> None
      \<and> encrypt (encryptFailsAt 3) 2 exampleKey \<noteq> None
      \<and> encrypt (encryptFailsAt 3) 3 exampleKey = None
      \<and> encrypt exampleEnv 1 exampleKey \<noteq> None
      \<and> encrypt exampleEnv 2 exampleKey \<noteq> None
      \<and> encrypt exampleEnv 3 exampleKey \<noteq> None"
    by (simp add: encryptFailsAt_def exampleEnv_def)
  have thrown: "voteOnClick exampleEnv (handleInputChange readyState ''Infinity'' ''project2'')
       = (handleInputChange readyState ''Infinity'' ''project2'', [], Some RangeError)"
    using inf
      vote_checks_integrality_only
        [of "handleInputChange readyState ''Infinity'' ''project2''" exampleEnv]
    by (auto simp: handleInputChange_def Number_js_Infinity readyState_def voteOnClick_def)
  have sent: "voteOnClick exampleEnv countedState
       = (countedState,
          [Encrypt 1 exampleKey, Encrypt 2 exampleKey, Encrypt 3 exampleKey]
          @ [Fetch (voteRequest [Ciphertext [1, 7], Ciphertext [2, 7], Ciphertext [3, 7]]
                      (Some (JStr ''ticket'')))],
          None)"
    by (simp add: voteOnClick_def handleClick_def countedState_def exampleEnv_def Let_def)
  have first: "voteOnClick (encryptFailsAt 1) countedState
          = (countedState, [Encrypt 1 exampleKey], Some LibraryError)"
    using countedState_BigInt enc
      vote_checks_integrality_only [of countedState "encryptFailsAt 1" 1 2 3 exampleKey]
    by simp
  have second: "voteOnClick (encryptFailsAt 2) countedState
          = (countedState, [Encrypt 1 exampleKey, Encrypt 2 exampleKey], Some LibraryError)"
    using countedState_BigInt enc
      vote_checks_integrality_only [of countedState "encryptFailsAt 2" 1 2 3 exampleKey]
    by simp
  have third: "voteOnClick (encryptFailsAt 3) countedState
          = (countedState, [Encrypt 1 exampleKey, Encrypt 2 exampleKey, Encrypt 3 exampleKey],
             Some LibraryError)"
    using countedState_BigInt enc
      vote_checks_integrality_only [of countedState "encryptFailsAt 3" 1 2 3 exampleKey]
    by simp
  from first second third inf enc thrown sent countedState_BigInt show ?thesis
    by - (elim conjE, intro conjI; assumption)
qed

text \<open>
  Claim C10. There is an input that \<open>handleInputChange\<close> accepts and stores and on
  which the following Vote click fails: \<^verbatim>\<open>1.5\<close> is stored as the number 3/2, whose
  conversion to BigInt throws a RangeError; and whenever the value stored for one of
  the three projects is a number that is not integral, its conversion throws a
  RangeError and the Vote click throws with no encryption and no request.
\<close>

theorem non_integral_input_makes_vote_throw:
  "inputValues (handleInputChange s0 ''1.5'' p0) p0 = Some (Fin (3 / 2))
   \<and> BigInt (Some (Fin (3 / 2))) = Inl RangeError
   \<and> (project \<in> set projects \<and> inputValues s project = Some (Fin q) \<and> of_int \<lfloor>q\<rfloor> \<noteq> q \<longrightarrow>
        BigInt (inputValues s project) = Inl RangeError
        \<and> (\<exists>err. voteOnClick e s = (s, [], Some err)))"
proof (intro conjI impI)
  show "inputValues (handleInputChange s0 ''1.5'' p0) p0 = Some (Fin (3 / 2))"
    by (simp add: handleInputChange_def Number_js_one_and_a_half)
  show "BigInt (Some (Fin (3 / 2))) = Inl RangeError"
    by (simp add: floor_three_halves)
next
  assume a: "project \<in> set projects \<and> inputValues s project = Some (Fin q) \<and> of_int \<lfloor>q\<rfloor> \<noteq> q"
  then show bi: "BigInt (inputValues s project) = Inl RangeError"
    by simp
  from a bi show "\<exists>err. voteOnClick e s = (s, [], Some err)"
    by (auto simp: projects_def voteOnClick_def split: sum.splits)
qed

theorem non_integral_input_makes_vote_throw_witness:
  "''project3'' \<in> set projects
   \<and> inputValues (handleInputChange readyState ''1.5'' ''project3'') ''project3'' = Some (Fin (3 / 2))
   \<and> of_int \<lfloor>3 / 2 :: rat\<rfloor> \<noteq> (3 / 2 :: rat)
   \<and> BigInt (inputValues (handleInputChange readyState ''1.5'' ''project3'') ''project3'')
       = Inl RangeError
   \<and> step exampleEnv (handleInputChange readyState ''1.5'' ''project3'') ClickVote
       = Some (handleInputChange readyState ''1.5'' ''project3'', [], Some RangeError)"
proof -
  let ?s = "handleInputChange readyState ''1.5'' ''project3''"
  have p: "''project3'' \<in> set projects"
    by (simp add: projects_def)
  have stored: "inputValues ?s ''project3'' = Some (Fin (3 / 2))"
    using non_integral_input_makes_vote_throw [of readyState "''project3''"] by blast
  from p stored three_halves_not_integral
    non_integral_input_makes_vote_throw [of _ _ "''project3''" ?s "3 / 2" exampleEnv]
  have bi: "BigInt (inputValues ?s ''project3'') = Inl RangeError"
    and "\<exists>err. voteOnClick exampleEnv ?s = (?s, [], Some err)"
    by blast+
  then have "voteOnClick exampleEnv ?s = (?s, [], Some RangeError)"
    by (auto simp: voteOnClick_def handleInputChange_def Number_js_one_and_a_half readyState_def
        split: sum.splits)
  moreover have "\<not> voteDisabled ?s"
    by (simp add: voteDisabled_def handleInputChange_def Number_js_one_and_a_half readyState_def)
  ultimately have "step exampleEnv ?s ClickVote = Some (?s, [], Some RangeError)"
    by simp
  with p stored three_halves_not_integral bi show ?thesis
    by - (intro conjI; assumption)
qed

section \<open>The submitted ballot\<close>




text \<open>
  Claim C6 as stated fails: the body of the vote request has no \<open>proof\<close> field; the
  credential is sent under \<open>pcd\<close>.
\<close>

theorem vote_body_has_no_proof_field:
  "step exampleEnv readyState ClickVote
     = Some (readyState,
         [Encrypt 0 exampleKey, Encrypt 0 exampleKey, Encrypt 0 exampleKey,
          Fetch (voteRequest [Ciphertext [0, 7], Ciphertext [0, 7], Ciphertext [0, 7]]
                   (Some (JStr ''ticket'')))],
         None)
   \<and> getProperty (body (voteRequest [Ciphertext [0, 7], Ciphertext [0, 7], Ciphertext [0, 7]]
                           (Some (JStr ''ticket'')))) ''proof'' = Inr None
   \<and> getProperty (body (voteRequest [Ciphertext [0, 7], Ciphertext [0, 7], Ciphertext [0, 7]]
                           (Some (JStr ''ticket'')))) ''pcd'' = Inr (Some (JStr ''ticket''))"
proof -
  have "getProperty (body (voteRequest [Ciphertext [0, 7], Ciphertext [0, 7], Ciphertext [0, 7]]
                           (Some (JStr ''ticket'')))) ''proof'' = Inr None"
    and "getProperty (body (voteRequest [Ciphertext [0, 7], Ciphertext [0, 7], Ciphertext [0, 7]]
                           (Some (JStr ''ticket'')))) ''pcd'' = Inr (Some (JStr ''ticket''))"
    by (simp_all add: voteRequest_def voteBody_def stringifyObject_def)
  with readyState_vote show ?thesis
    by blast
qed

text \<open>
  Claim C6, amended. Every request \<open>handleClick\<close> sends goes to the vote endpoint
  with a body that is a JSON object whose \<open>votes\<close> field holds the serialized
  ciphertext of each vote, in order, and whose \<open>pcd\<close> field holds the stored
  credential (left out when none is stored); the body has no other field, so the
  votes enter it only through their ciphertexts.
\<close>

theorem vote_body_is_ciphertexts_and_pcd:
  "(Fetch req \<in> set (fst (snd (handleClick e s votes))) \<longrightarrow>
      (\<exists>k cs. publicKey s = Some k \<and> map (\<lambda>v. encrypt e v k) votes = map Some cs
             \<and> req = voteRequest cs (pcd s)))
   \<and> url (voteRequest cs p) = ''http://localhost:8000/vote''
   \<and> body (voteRequest cs p)
       = JObj ((''votes'', JArr (map serializeVote cs))
               # (case p of None \<Rightarrow> [] | Some j \<Rightarrow> [(''pcd'', j)]))
   \<and> getProperty (body (voteRequest cs p)) ''proof'' = Inr None"
  using handleClick_Fetch [of req e s votes]
  by (auto simp: voteRequest_def voteBody_def stringifyObject_def VOTE_PATH_def BASE_URL_def
      split: option.splits)

theorem vote_body_is_ciphertexts_and_pcd_witness:
  "Fetch (voteRequest [Ciphertext [0, 7], Ciphertext [0, 7], Ciphertext [0, 7]]
            (Some (JStr ''ticket'')))
     \<in> set (fst (snd (handleClick exampleEnv readyState [0, 0, 0])))
   \<and> publicKey readyState = Some exampleKey
   \<and> map (\<lambda>v. encrypt exampleEnv v exampleKey) [0, 0, 0]
       = map Some [Ciphertext [0, 7], Ciphertext [0, 7], Ciphertext [0, 7]]
   \<and> body (voteRequest [Ciphertext [0, 7], Ciphertext [0, 7], Ciphertext [0, 7]]
             (Some (JStr ''ticket'')))
       = JObj [(''votes'', JArr [JArr [JNum 0, JNum 7], JArr [JNum 0, JNum 7], JArr [JNum 0, JNum 7]]),
               (''pcd'', JStr ''ticket'')]"
  using vote_body_is_ciphertexts_and_pcd
      [of "voteRequest [Ciphertext [0, 7], Ciphertext [0, 7], Ciphertext [0, 7]]
             (Some (JStr ''ticket''))"
        exampleEnv readyState "[0, 0, 0]"
        "[Ciphertext [0, 7], Ciphertext [0, 7], Ciphertext [0, 7]]" "Some (JStr ''ticket'')"]
  by (simp add: handleClick_def readyState_def exampleEnv_def Let_def serializeVote_def)

section \<open>A missing public key\<close>

text \<open>
  Claim C7 as stated fails: with no public key the Vote click encrypts nothing and
  sends nothing, but it shows no error either; and when loading the key fails, the
  effect run on mount rejects without a notification.
\<close>

theorem missing_key_shows_no_error:
  "publicKey (readyState\<lparr>publicKey := None\<rparr>) = None
   \<and> step exampleEnv (readyState\<lparr>publicKey := None\<rparr>) ClickVote
       = Some (readyState\<lparr>publicKey := None\<rparr>, [], None)
   \<and> loadKeyEffect (exampleEnv\<lparr>loadPublicKey := (\<lambda>_. None)\<rparr>) initialState
       = (initialState, [], Some LibraryError)"
  by (simp add: readyState_def voteDisabled_def voteOnClick_def handleClick_def
      loadKeyEffect_def exampleEnv_def)

text \<open>
  Claim C7, amended. If the public key is null, \<open>handleClick\<close> and the Vote click
  attempt no encryption, send no request and show no notification, and leave the
  state as it is; if initialising the library or loading the key fails, the effect
  run on mount leaves the state as it is and shows nothing.
\<close>

theorem missing_key_is_silent:
  "(publicKey s = None \<longrightarrow>
      handleClick e s votes = (s, [], None) \<and> (\<exists>r. voteOnClick e s = (s, [], r)))
   \<and> (\<not> initializeTfhe e \<or> loadPublicKey e PUBLIC_KEY_PATH = None \<longrightarrow>
        loadKeyEffect e s = (s, [], Some LibraryError))"
  by (auto simp: voteOnClick_def handleClick_def loadKeyEffect_def split: sum.splits)

theorem missing_key_is_silent_witness:
  "publicKey (readyState\<lparr>publicKey := None\<rparr>) = None
   \<and> handleClick exampleEnv (readyState\<lparr>publicKey := None\<rparr>) [0, 0, 0]
       = (readyState\<lparr>publicKey := None\<rparr>, [], None)
   \<and> voteOnClick exampleEnv (readyState\<lparr>publicKey := None\<rparr>)
       = (readyState\<lparr>publicKey := None\<rparr>, [], None)
   \<and> loadPublicKey (exampleEnv\<lparr>loadPublicKey := (\<lambda>_. None)\<rparr>) PUBLIC_KEY_PATH = None
   \<and> loadKeyEffect (exampleEnv\<lparr>loadPublicKey := (\<lambda>_. None)\<rparr>) initialState
       = (initialState, [], Some LibraryError)"
  using missing_key_is_silent [of "readyState\<lparr>publicKey := None\<rparr>" exampleEnv "[0, 0, 0]"]
    missing_key_is_silent [of initialState "exampleEnv\<lparr>loadPublicKey := (\<lambda>_. None)\<rparr>"]
  by (simp add: readyState_def voteOnClick_def handleClick_def)

end
